theory Spec2Isabelle
  imports Main
begin

section \<open>Python values used by the two scripts\<close>

text \<open>
  A Python \<open>str\<close> is modelled as a \<open>string\<close> whose characters are the code points
  0..255. \<open>isspace\<close> and \<open>lower\<close> are Python's \<open>str.isspace\<close> and \<open>str.lower\<close> on
  that range. A \<open>dict\<close> with string keys is an association list read with \<open>map_of\<close>.
\<close>

definition isspace :: "char \<Rightarrow> bool" where
  "isspace c =
     (let n = (of_char c :: nat)
      in (9 \<le> n \<and> n \<le> 13) \<or> (28 \<le> n \<and> n \<le> 32) \<or> n = 133 \<or> n = 160)"

definition strip :: "string \<Rightarrow> string" where
  "strip s = rev (dropWhile isspace (rev (dropWhile isspace s)))"

definition startswith :: "string \<Rightarrow> string \<Rightarrow> bool" where
  "startswith s p = (take (length p) s = p)"

definition endswith :: "string \<Rightarrow> string \<Rightarrow> bool" where
  "endswith s p = (length p \<le> length s \<and> drop (length s - length p) s = p)"

definition lower_char :: "char \<Rightarrow> char" where
  "lower_char c =
     (let n = (of_char c :: nat)
      in if (65 \<le> n \<and> n \<le> 90) \<or> (192 \<le> n \<and> n \<le> 214) \<or> (216 \<le> n \<and> n \<le> 222)
         then char_of (n + 32) else c)"

definition lower :: "string \<Rightarrow> string" where
  "lower s = map lower_char s"

definition digit :: "nat \<Rightarrow> char" where
  "digit d = char_of (48 + d)"

fun str_of_nat :: "nat \<Rightarrow> string" where
  "str_of_nat n = (if n < 10 then [digit n] else str_of_nat (n div 10) @ [digit (n mod 10)])"

declare str_of_nat.simps [simp del]

text \<open>\<open>f"{x}"\<close> for a value that may be \<open>None\<close>.\<close>

definition fmt :: "string option \<Rightarrow> string" where
  "fmt x = (case x of None \<Rightarrow> ''None'' | Some v \<Rightarrow> v)"

type_synonym 'v dict = "(string \<times> 'v) list"

text \<open>\<open>d.get(k, default)\<close>\<close>

definition dict_get :: "'v dict \<Rightarrow> string \<Rightarrow> 'v \<Rightarrow> 'v" where
  "dict_get d k dflt = (case map_of d k of None \<Rightarrow> dflt | Some v \<Rightarrow> v)"

text \<open>\<open>os.path.join(a, b)\<close> of \<open>posixpath\<close>, for two components.\<close>

definition os_path_join :: "string \<Rightarrow> string \<Rightarrow> string" where
  "os_path_join a b =
     (if startswith b ''/'' then b
      else if a = [] \<or> endswith a ''/'' then a @ b
      else a @ ''/'' @ b)"

section \<open>Exceptions, state and environment\<close>

text \<open>
  Every exception the scripts meet is either an \<open>Exception\<close>, of which only \<open>str(e)\<close>
  is ever used, or the \<open>SystemExit\<close> of \<open>sys.exit\<close>, which \<open>except Exception\<close> does
  not catch.
\<close>

datatype exn = Exception string | SystemExit int

text \<open>
  The state a script changes: the files and directories it writes, the log, the trace of
  calls made to the device library (each with \<open>None\<close> when it returned and \<open>Some msg\<close>
  when it raised), and how many sessions, clock readings and file-system operations it has
  consumed from the environment.
\<close>

record ('e, 'c) state =
  files :: "string \<rightharpoonup> 'c"
  dirs :: "string set"
  log :: "(string \<times> string) list"
  trace :: "('e \<times> string option) list"
  n_sessions :: nat
  n_clock :: nat
  n_fs :: nat

text \<open>
  What the scripts cannot decide themselves comes from the environment: the \<open>n\<close>-th
  reading of \<open>datetime.now().strftime('%Y%m%d_%H%M%S')\<close>, whether the \<open>n\<close>-th
  file-system operation that writes raises (\<open>Some msg\<close>) or succeeds, and the inventory
  file found at a path.
\<close>

type_synonym device = "string dict"

text \<open>
  The inventory file as \<open>open\<close> and \<open>yaml.safe_load\<close> find it: missing, not YAML, or
  a mapping, given by its \<open>'devices'\<close> entry if it has one.
\<close>

datatype inventory_file =
  FileNotFoundError
  | YAMLError string
  | Document "device list option"

record env =
  now :: "nat \<Rightarrow> string"
  fs_fault :: "nat \<Rightarrow> string option"
  inventory :: "string \<Rightarrow> inventory_file"

type_synonym ('a, 's) io = "'s \<Rightarrow> (exn + 'a) \<times> 's"

definition return :: "'a \<Rightarrow> ('a, 's) io" where
  "return x s = (Inr x, s)"

definition raise :: "exn \<Rightarrow> ('a, 's) io" where
  "raise e s = (Inl e, s)"

definition bind :: "('a, 's) io \<Rightarrow> ('a \<Rightarrow> ('b, 's) io) \<Rightarrow> ('b, 's) io" where
  "bind m f s = (case m s of (Inl e, s') \<Rightarrow> (Inl e, s') | (Inr x, s') \<Rightarrow> f x s')"

text \<open>\<open>try: body except Exception as e: handler(str(e))\<close>\<close>

definition try_except :: "('a, 's) io \<Rightarrow> (string \<Rightarrow> ('a, 's) io) \<Rightarrow> ('a, 's) io" where
  "try_except body handler s =
     (case body s of
        (Inl (Exception msg), s') \<Rightarrow> handler msg s'
      | (Inl (SystemExit c), s') \<Rightarrow> (Inl (SystemExit c), s')
      | (Inr x, s') \<Rightarrow> (Inr x, s'))"

definition logger_info :: "string \<Rightarrow> (unit, ('e, 'c) state) io" where
  "logger_info msg s = (Inr (), s\<lparr>log := log s @ [(''INFO'', msg)]\<rparr>)"

definition logger_error :: "string \<Rightarrow> (unit, ('e, 'c) state) io" where
  "logger_error msg s = (Inr (), s\<lparr>log := log s @ [(''ERROR'', msg)]\<rparr>)"

text \<open>A call into the device library: recorded in the trace with its outcome.\<close>

definition invoke :: "'e \<Rightarrow> string + 'a \<Rightarrow> ('a, ('e, 'c) state) io" where
  "invoke c r s =
     (case r of
        Inl msg \<Rightarrow> (Inl (Exception msg), s\<lparr>trace := trace s @ [(c, Some msg)]\<rparr>)
      | Inr x \<Rightarrow> (Inr x, s\<lparr>trace := trace s @ [(c, None)]\<rparr>))"

definition raises :: "string option \<Rightarrow> string + unit" where
  "raises r = (case r of Some msg \<Rightarrow> Inl msg | None \<Rightarrow> Inr ())"

text \<open>\<open>d[k]\<close>: a missing key raises \<open>KeyError(k)\<close>, whose \<open>str\<close> is the quoted key.\<close>

definition dict_item :: "'v dict \<Rightarrow> string \<Rightarrow> ('v, 's) io" where
  "dict_item d k =
     (case map_of d k of
        None \<Rightarrow> raise (Exception ([CHR 0x27] @ k @ [CHR 0x27]))
      | Some v \<Rightarrow> return v)"

definition datetime_now :: "'x env_scheme \<Rightarrow> (string, ('e, 'c) state) io" where
  "datetime_now w s = (Inr (now w (n_clock s)), s\<lparr>n_clock := Suc (n_clock s)\<rparr>)"

text \<open>One file-system operation: it raises when the environment says so, else it takes effect.\<close>

definition fs_op ::
  "'x env_scheme \<Rightarrow> (('e, 'c) state \<Rightarrow> ('e, 'c) state) \<Rightarrow> (unit, ('e, 'c) state) io" where
  "fs_op w effect s =
     (case fs_fault w (n_fs s) of
        Some msg \<Rightarrow> (Inl (Exception msg), s\<lparr>n_fs := Suc (n_fs s)\<rparr>)
      | None \<Rightarrow> (Inr (), (effect s)\<lparr>n_fs := Suc (n_fs s)\<rparr>))"

text \<open>\<open>os.makedirs(path, exist_ok=True)\<close>\<close>

definition os_makedirs :: "'x env_scheme \<Rightarrow> string \<Rightarrow> (unit, ('e, 'c) state) io" where
  "os_makedirs w path = fs_op w (\<lambda>s. s\<lparr>dirs := insert path (dirs s)\<rparr>)"

text \<open>\<open>open(path, 'w')\<close> creates the file or empties it; \<open>blank\<close> is the empty content.\<close>

definition open_w :: "'x env_scheme \<Rightarrow> 'c \<Rightarrow> string \<Rightarrow> (unit, ('e, 'c) state) io" where
  "open_w w blank path = fs_op w (\<lambda>s. s\<lparr>files := (files s)(path \<mapsto> blank)\<rparr>)"

text \<open>Writing the content and leaving the \<open>with\<close> block.\<close>

definition write_close :: "'x env_scheme \<Rightarrow> string \<Rightarrow> 'c \<Rightarrow> (unit, ('e, 'c) state) io" where
  "write_close w path c = fs_op w (\<lambda>s. s\<lparr>files := (files s)(path \<mapsto> c)\<rparr>)"

text \<open>
  \<open>load_device_inventory\<close>, the same in both scripts. Only \<open>FileNotFoundError\<close> and
  \<open>yaml.YAMLError\<close> are caught; a mapping without \<open>'devices'\<close> raises \<open>KeyError\<close>.
\<close>

definition load_device_inventory ::
  "'x env_scheme \<Rightarrow> string \<Rightarrow> (device list, ('e, 'c) state) io" where
  "load_device_inventory w inventory_file =
     (case inventory w inventory_file of
        FileNotFoundError \<Rightarrow>
          bind (logger_error (''Inventory file '' @ inventory_file @ '' not found''))
            (\<lambda>_. raise (SystemExit 1))
      | YAMLError e \<Rightarrow>
          bind (logger_error (''Error parsing YAML file: '' @ e))
            (\<lambda>_. raise (SystemExit 1))
      | Document None \<Rightarrow> raise (Exception ([CHR 0x27] @ ''devices'' @ [CHR 0x27]))
      | Document (Some devices) \<Rightarrow>
          bind (logger_info (''Successfully loaded '' @ str_of_nat (length devices)
                             @ '' devices from inventory''))
            (\<lambda>_. return devices))"

section \<open>The backup script (\<open>scripts/napalm_backup.py\<close>)\<close>

datatype content = Text string | Json "string dict"

text \<open>
  What one NAPALM driver object does when its methods are called: each either raises
  (\<open>Some msg\<close>, \<open>Inl msg\<close>) or returns.
\<close>

record napalm_session =
  on_open :: "string option"
  on_get_facts :: "string + string dict"
  on_get_config :: "string + string dict"
  on_get_interfaces :: "string + string dict"
  on_close :: "string option"

text \<open>
  The environment of the backup script: whether \<open>get_network_driver(name)\<close> raises, and
  what constructing the \<open>n\<close>-th driver object gives.
\<close>

record napalm_env = env +
  get_network_driver :: "string \<Rightarrow> string option"
  new_session :: "nat \<Rightarrow> string + napalm_session"

datatype napalm_call =
  GetNetworkDriver string
  | Driver nat "string option" string string "string dict"
  | Open nat
  | GetFacts nat
  | GetConfig nat
  | GetInterfaces nat
  | Close nat

type_synonym napalm_state = "(napalm_call, content) state"

datatype result =
  Success (r_hostname: "string option") (r_backup_dir: string) (r_timestamp: string)
    (r_files: "string dict")
  | Failed (r_hostname: "string option") (r_error: string)

text \<open>\<open>r['status']\<close>\<close>

fun status :: "result \<Rightarrow> string" where
  "status (Success h d t fs) = ''success''"
| "status (Failed h e) = ''failed''"

definition driver_map :: "string dict" where
  "driver_map =
     [(''cisco_ios'', ''ios''),
      (''cisco_xe'', ''ios''),
      (''cisco_nxos'', ''nxos''),
      (''cisco_xr'', ''iosxr''),
      (''arista_eos'', ''eos''),
      (''juniper'', ''junos''),
      (''juniper_junos'', ''junos'')]"

text \<open>Line 73: \<open>driver_map.get(device_type, 'ios')\<close>\<close>

definition driver_for :: "string \<Rightarrow> string" where
  "driver_for device_type = dict_get driver_map device_type ''ios''"

text \<open>Lines 59 and 73: the driver chosen for a device.\<close>

definition napalm_driver :: "device \<Rightarrow> string" where
  "napalm_driver device = driver_for (dict_get device ''device_type'' ''cisco_ios'')"

text \<open>\<open>os.path.join(backup_base_dir, hostname)\<close>: a \<open>None\<close> component raises \<open>TypeError\<close>.\<close>

definition join_hostname :: "string \<Rightarrow> string option \<Rightarrow> (string, 's) io" where
  "join_hostname base h =
     (case h of
        None \<Rightarrow> raise (Exception ''expected str, bytes or os.PathLike object, not NoneType'')
      | Some x \<Rightarrow> return (os_path_join base x))"

text \<open>Lines 112 to 116: the startup configuration is saved when present and non-empty.\<close>

definition save_startup ::
  "napalm_env \<Rightarrow> string dict \<Rightarrow> string \<Rightarrow> string option \<Rightarrow> string \<Rightarrow> (unit, napalm_state) io" where
  "save_startup w config device_backup_dir hostname ts =
     (if map_of config ''startup'' \<noteq> None \<and> map_of config ''startup'' \<noteq> Some []
      then
        (let startup_config_file =
               os_path_join device_backup_dir (fmt hostname @ ''_startup_'' @ ts @ ''.cfg'')
         in bind (open_w w (Text []) startup_config_file) (\<lambda>_.
            bind (dict_item config ''startup'') (\<lambda>startup.
            bind (write_close w startup_config_file (Text startup)) (\<lambda>_.
            logger_info (''Startup configuration saved to '' @ startup_config_file)))))
      else return ())"

text \<open>
  Lines 82 to 87: constructing the driver object. The model numbers the objects in the
  order of their construction.
\<close>

definition new_driver ::
  "napalm_env \<Rightarrow> string option \<Rightarrow> string \<Rightarrow> string \<Rightarrow> string dict
     \<Rightarrow> (nat \<times> napalm_session, napalm_state) io" where
  "new_driver w hostname username password optional_args s =
     (let sid = n_sessions s
      in bind (invoke (Driver sid hostname username password optional_args) (new_session w sid))
           (\<lambda>conn. return (sid, conn))
           (s\<lparr>n_sessions := Suc sid\<rparr>))"

text \<open>
  Lines 98 to 146: from the timestamp to the returned dictionary, given the facts and the
  configuration already retrieved.
\<close>

definition save_artifacts ::
  "napalm_env \<Rightarrow> string option \<Rightarrow> nat \<Rightarrow> napalm_session \<Rightarrow> string dict \<Rightarrow> string dict
     \<Rightarrow> (result, napalm_state) io" where
  "save_artifacts w hostname sid conn facts config =
     (
      bind (datetime_now w) (\<lambda>ts.
      bind (join_hostname ''backups'' hostname) (\<lambda>device_backup_dir.
      bind (os_makedirs w device_backup_dir) (\<lambda>_.
      (let running_config_file =
             os_path_join device_backup_dir (fmt hostname @ ''_running_'' @ ts @ ''.cfg'')
       in
      bind (open_w w (Text []) running_config_file) (\<lambda>_.
      bind (dict_item config ''running'') (\<lambda>running.
      bind (write_close w running_config_file (Text running)) (\<lambda>_.
      bind (logger_info (''Running configuration saved to '' @ running_config_file)) (\<lambda>_.
      bind (save_startup w config device_backup_dir hostname ts) (\<lambda>_.
      (let facts_file =
             os_path_join device_backup_dir (fmt hostname @ ''_facts_'' @ ts @ ''.json'')
       in
      bind (open_w w (Text []) facts_file) (\<lambda>_.
      bind (write_close w facts_file (Json facts)) (\<lambda>_.
      bind (logger_info (''Device facts saved to '' @ facts_file)) (\<lambda>_.
      bind (invoke (GetInterfaces sid) (on_get_interfaces conn)) (\<lambda>interfaces.
      (let interfaces_file =
             os_path_join device_backup_dir (fmt hostname @ ''_interfaces_'' @ ts @ ''.json'')
       in
      bind (open_w w (Text []) interfaces_file) (\<lambda>_.
      bind (write_close w interfaces_file (Json interfaces)) (\<lambda>_.
      bind (logger_info (''Interface information saved to '' @ interfaces_file)) (\<lambda>_.
      bind (invoke (Close sid) (raises (on_close conn))) (\<lambda>_.
      return (Success hostname device_backup_dir ts
                [(''running_config'', running_config_file),
                 (''facts'', facts_file),
                 (''interfaces'', interfaces_file)])))))))))))))))))))))"

text \<open>Lines 89 to 146: from \<open>open()\<close> to the returned dictionary.\<close>

definition backup_session ::
  "napalm_env \<Rightarrow> string option \<Rightarrow> nat \<Rightarrow> napalm_session \<Rightarrow> (result, napalm_state) io" where
  "backup_session w hostname sid conn =
     (
      bind (invoke (Open sid) (raises (on_open conn))) (\<lambda>_.
      bind (invoke (GetFacts sid) (on_get_facts conn)) (\<lambda>facts.
      bind (logger_info (''Connected to '' @ dict_get facts ''hostname'' (fmt hostname)
                         @ '' - Model: '' @ dict_get facts ''model'' ''Unknown'')) (\<lambda>_.
      bind (invoke (GetConfig sid) (on_get_config conn)) (\<lambda>config.
      save_artifacts w hostname sid conn facts config)))))"

text \<open>Lines 76 to 146: the body of the \<open>try\<close>.\<close>

definition backup_body :: "napalm_env \<Rightarrow> device \<Rightarrow> (result, napalm_state) io" where
  "backup_body w device =
     (let hostname = map_of device ''host'';
          drv = napalm_driver device
      in
      bind (logger_info (''Connecting to '' @ fmt hostname @ '' using NAPALM driver: '' @ drv)) (\<lambda>_.
      bind (invoke (GetNetworkDriver drv) (raises (get_network_driver w drv))) (\<lambda>_.
      bind (dict_item device ''username'') (\<lambda>username.
      bind (dict_item device ''password'') (\<lambda>password.
      bind (dict_item device ''password'') (\<lambda>dflt.
      bind (new_driver w hostname username password
              [(''secret'', dict_get device ''secret'' dflt)]) (\<lambda>(sid, conn).
      backup_session w hostname sid conn)))))))"

text \<open>Lines 49 to 154.\<close>

definition backup_device_config :: "napalm_env \<Rightarrow> device \<Rightarrow> (result, napalm_state) io" where
  "backup_device_config w device =
     try_except (backup_body w device)
       (\<lambda>msg.
          bind (logger_error (''Failed to backup '' @ fmt (map_of device ''host'') @ '': '' @ msg))
            (\<lambda>_. return (Failed (map_of device ''host'') msg)))"

text \<open>Lines 206 to 213: the loop over the devices, \<open>results\<close> being the list so far.\<close>

fun main_loop :: "napalm_env \<Rightarrow> device list \<Rightarrow> result list \<Rightarrow> (result list, napalm_state) io" where
  "main_loop w [] results = return results"
| "main_loop w (device # rest) results =
     bind (logger_info ([CHR 0x0A] @ replicate 50 (CHR ''=''))) (\<lambda>_.
     bind (dict_item device ''host'') (\<lambda>host.
     bind (logger_info (''Backing up device: '' @ host)) (\<lambda>_.
     bind (logger_info (replicate 50 (CHR ''=''))) (\<lambda>_.
     bind (backup_device_config w device) (\<lambda>result.
     main_loop w rest (results @ [result]))))))"

text \<open>Lines 196 to 213 of \<open>main\<close>: up to the end of the loop.\<close>

definition run_backups :: "napalm_env \<Rightarrow> (result list, napalm_state) io" where
  "run_backups w =
     bind (os_makedirs w ''logs'') (\<lambda>_.
     bind (os_makedirs w ''backups'') (\<lambda>_.
     bind (load_device_inventory w ''config/devices.yml'') (\<lambda>devices.
     main_loop w devices [])))"

text \<open>Lines 220 to 242: the value \<open>main\<close> returns. What it prints is not modelled.\<close>

definition summary :: "result list \<Rightarrow> int" where
  "summary results =
     (let success_count = int (length (filter (\<lambda>r. status r = ''success'') results));
          failed_count = int (length results) - success_count
      in if failed_count = 0 then 0 else 1)"

definition main :: "napalm_env \<Rightarrow> (int, napalm_state) io" where
  "main w = bind (run_backups w) (\<lambda>results. return (summary results))"

text \<open>
  \<open>sys.exit(main())\<close>: the exit status of the process. An exception that nothing catches
  ends the interpreter with status 1.
\<close>

definition exit_status :: "exn + int \<Rightarrow> int" where
  "exit_status r =
     (case r of Inr code \<Rightarrow> code | Inl (SystemExit code) \<Rightarrow> code | Inl (Exception msg) \<Rightarrow> 1)"

definition script :: "napalm_env \<Rightarrow> napalm_state \<Rightarrow> int" where
  "script w s = exit_status (fst (main w s))"

section \<open>The configuration script (\<open>scripts/netmiko_config.py\<close>)\<close>

text \<open>
  A text file opened with \<open>open(path, 'r')\<close>: \<open>\r\n\<close> and \<open>\r\<close> are read as \<open>\n\<close>,
  and iterating over the file gives its lines, each with its \<open>\n\<close> (the last line may
  have none).
\<close>

fun universal_newlines :: "string \<Rightarrow> string" where
  "universal_newlines [] = []"
| "universal_newlines [c] = (if c = CHR 0x0D then [CHR 0x0A] else [c])"
| "universal_newlines (c # d # cs) =
     (if c = CHR 0x0D \<and> d = CHR 0x0A then CHR 0x0A # universal_newlines cs
      else if c = CHR 0x0D then CHR 0x0A # universal_newlines (d # cs)
      else c # universal_newlines (d # cs))"

fun file_lines :: "string \<Rightarrow> string list" where
  "file_lines [] = []"
| "file_lines (c # cs) =
     (if c = CHR 0x0A then [c] # file_lines cs
      else (case file_lines cs of [] \<Rightarrow> [[c]] | l # ls \<Rightarrow> (c # l) # ls))"

text \<open>
  Line 60, the comprehension
  \<open>[line.strip() for line in f if line.strip() and not line.startswith('#')]\<close>.
\<close>

fun comprehension :: "string list \<Rightarrow> string list" where
  "comprehension [] = []"
| "comprehension (line # rest) =
     (if strip line \<noteq> [] \<and> \<not> startswith line ''#''
      then strip line # comprehension rest
      else comprehension rest)"

text \<open>
  What one Netmiko connection does when its methods are called, and the environment of the
  script: what the \<open>n\<close>-th \<open>ConnectHandler(**device)\<close> gives. The files of the state hold
  text.
\<close>

record netmiko_session =
  on_enable :: "string option"
  on_send_config_set :: "string list \<Rightarrow> string + string"
  on_save_config :: "string + string"
  on_send_command :: "string \<Rightarrow> string + string"
  on_disconnect :: "string option"

record netmiko_env = env +
  connect_handler :: "nat \<Rightarrow> string + netmiko_session"

datatype netmiko_call =
  ConnectHandler nat device
  | Enable nat
  | SendConfigSet nat "string list"
  | SaveConfig nat
  | SendCommand nat string
  | Disconnect nat

type_synonym netmiko_state = "(netmiko_call, string) state"

text \<open>Lines 48 to 65. A file that is not there is the one failure the function catches.\<close>

definition load_configuration :: "string \<Rightarrow> (string list, netmiko_state) io" where
  "load_configuration config_file s =
     (case files s config_file of
        None \<Rightarrow>
          bind (logger_error (''Configuration file '' @ config_file @ '' not found''))
            (\<lambda>_. return []) s
      | Some text \<Rightarrow>
          (let commands = comprehension (file_lines (universal_newlines text))
           in bind (logger_info (''Loaded '' @ str_of_nat (length commands)
                                 @ '' configuration commands''))
                (\<lambda>_. return commands)) s)"

text \<open>\<open>ConnectHandler(**device)\<close>; the model numbers the connections in their order.\<close>

definition connect ::
  "netmiko_env \<Rightarrow> device \<Rightarrow> (nat \<times> netmiko_session, netmiko_state) io" where
  "connect w device s =
     (let sid = n_sessions s
      in bind (invoke (ConnectHandler sid device) (connect_handler w sid))
           (\<lambda>connection. return (sid, connection))
           (s\<lparr>n_sessions := Suc sid\<rparr>))"

text \<open>The dictionary \<open>configure_device\<close> returns.\<close>

datatype configured =
  Configured (c_output: string) (c_save_output: string)
  | NotConfigured (c_error: string)

fun c_status :: "configured \<Rightarrow> string" where
  "c_status (Configured out save) = ''success''"
| "c_status (NotConfigured e) = ''failed''"

text \<open>
  Lines 67 to 108. The handler reads \<open>device['host']\<close> again, outside the \<open>try\<close>.
\<close>

definition configure_device ::
  "netmiko_env \<Rightarrow> device \<Rightarrow> string list \<Rightarrow> (configured, netmiko_state) io" where
  "configure_device w device commands =
     try_except
       (
        bind (dict_item device ''host'') (\<lambda>host.
        bind (logger_info (''Connecting to '' @ host @ ''...'')) (\<lambda>_.
        bind (connect w device) (\<lambda>(sid, connection).
        bind (invoke (Enable sid) (raises (on_enable connection))) (\<lambda>_.
        bind (dict_item device ''host'') (\<lambda>host.
        bind (logger_info (''Sending '' @ str_of_nat (length commands) @ '' commands to '' @ host)) (\<lambda>_.
        bind (invoke (SendConfigSet sid commands) (on_send_config_set connection commands)) (\<lambda>output.
        bind (invoke (SaveConfig sid) (on_save_config connection)) (\<lambda>save_output.
        bind (dict_item device ''host'') (\<lambda>host.
        bind (logger_info (''Configuration completed successfully on '' @ host)) (\<lambda>_.
        bind (invoke (Disconnect sid) (raises (on_disconnect connection))) (\<lambda>_.
        return (Configured output save_output)))))))))))))
       (\<lambda>msg.
          bind (dict_item device ''host'') (\<lambda>host.
          bind (logger_error (''Failed to configure '' @ host @ '': '' @ msg)) (\<lambda>_.
          return (NotConfigured msg))))"

text \<open>Lines 110 to 145: the backup taken before the change; \<open>None\<close> when it failed.\<close>

definition backup_configuration ::
  "netmiko_env \<Rightarrow> device \<Rightarrow> (string option, netmiko_state) io" where
  "backup_configuration w device =
     try_except
       (
        bind (connect w device) (\<lambda>(sid, connection).
        bind (invoke (Enable sid) (raises (on_enable connection))) (\<lambda>_.
        bind (invoke (SendCommand sid ''show running-config'')
              (on_send_command connection ''show running-config'')) (\<lambda>config.
        bind (os_makedirs w ''backups'') (\<lambda>_.
        bind (datetime_now w) (\<lambda>ts.
        bind (dict_item device ''host'') (\<lambda>host.
        (let backup_file =
               ''backups'' @ ''/'' @ host @ ''_'' @ ts @ ''.cfg''
         in
        bind (open_w w [] backup_file) (\<lambda>_.
        bind (write_close w backup_file config) (\<lambda>_.
        bind (logger_info (''Configuration backed up to '' @ backup_file)) (\<lambda>_.
        bind (invoke (Disconnect sid) (raises (on_disconnect connection))) (\<lambda>_.
        return (Some backup_file)))))))))))))
       (\<lambda>msg.
          bind (dict_item device ''host'') (\<lambda>host.
          bind (logger_error (''Failed to backup configuration from '' @ host @ '': '' @ msg))
            (\<lambda>_.
          return None)))"

text \<open>
  An element of \<open>results\<close>: the dictionary of \<open>configure_device\<close> with the keys
  \<open>'device'\<close> and \<open>'backup'\<close> added.
\<close>

record entry =
  outcome :: configured
  device_host :: string
  backup :: "string option"

text \<open>Lines 180 to 191: the body of the loop.\<close>

definition process_device ::
  "netmiko_env \<Rightarrow> string list \<Rightarrow> device \<Rightarrow> (entry, netmiko_state) io" where
  "process_device w commands device =
     (
      bind (logger_info ([CHR 0x0A] @ replicate 50 (CHR ''=''))) (\<lambda>_.
      bind (dict_item device ''host'') (\<lambda>host.
      bind (logger_info (''Processing device: '' @ host)) (\<lambda>_.
      bind (logger_info (replicate 50 (CHR ''=''))) (\<lambda>_.
      bind (backup_configuration w device) (\<lambda>backup_file.
      bind (configure_device w device commands) (\<lambda>result.
      bind (dict_item device ''host'') (\<lambda>host.
      return \<lparr>outcome = result, device_host = host, backup = backup_file\<rparr>))))))))"

text \<open>Lines 178 to 191: the loop, \<open>results\<close> being the list so far.\<close>

fun process_devices ::
  "netmiko_env \<Rightarrow> string list \<Rightarrow> device list \<Rightarrow> entry list \<Rightarrow> (entry list, netmiko_state) io"
  where
  "process_devices w commands [] results = return results"
| "process_devices w commands (device # rest) results =
     bind (process_device w commands device)
       (\<lambda>result. process_devices w commands rest (results @ [result]))"

text \<open>
  Lines 147 to 211, \<open>main\<close> of this script. The two answers read with \<open>input\<close> are
  parameters. The function returns \<open>None\<close>; the model returns how it ended, with the list
  \<open>results\<close> when the loop has run. What it prints is not modelled.
\<close>

datatype run = NoCommands | Cancelled | Completed "entry list"

definition main_netmiko ::
  "netmiko_env \<Rightarrow> string \<Rightarrow> string \<Rightarrow> (run, netmiko_state) io" where
  "main_netmiko w config_file confirm =
     (
      bind (os_makedirs w ''logs'') (\<lambda>_.
      bind (os_makedirs w ''backups'') (\<lambda>_.
      bind (load_device_inventory w ''config/devices.yml'') (\<lambda>devices.
      bind (load_configuration config_file) (\<lambda>commands.
      (if commands = []
       then bind (logger_error ''No configuration commands loaded. Exiting.'')
              (\<lambda>_. return NoCommands)
       else if lower confirm \<noteq> ''yes''
       then bind (logger_info ''Configuration cancelled by user'')
              (\<lambda>_. return Cancelled)
       else bind (process_devices w commands devices []) (\<lambda>results.
            bind (logger_info ''Configuration process completed'') (\<lambda>_.
            return (Completed results)))))))))"

section \<open>Predicates used in the proofs\<close>

text \<open>\<open>no_exit m\<close>: running \<open>m\<close> never ends in \<open>SystemExit\<close>.\<close>

definition no_exit :: "('a, 's) io \<Rightarrow> bool" where
  "no_exit m = (\<forall>s c s'. m s \<noteq> (Inl (SystemExit c), s'))"

text \<open>\<open>post m P\<close>: whenever \<open>m\<close> returns a value, \<open>P\<close> holds of it.\<close>

definition post :: "('a, 's) io \<Rightarrow> ('a \<Rightarrow> bool) \<Rightarrow> bool" where
  "post m P = (\<forall>s r s'. m s = (Inr r, s') \<longrightarrow> P r)"

text \<open>
  \<open>calls_only P m\<close>: running \<open>m\<close> only appends to the trace, and only calls that
  satisfy \<open>P\<close>.
\<close>

definition calls_only :: "('e \<Rightarrow> bool) \<Rightarrow> ('a, ('e, 'c) state) io \<Rightarrow> bool" where
  "calls_only P m =
     (\<forall>s. \<exists>evs. trace (snd (m s)) = trace s @ evs \<and> (\<forall>e \<in> set evs. P (fst e)))"

text \<open>
  \<open>raise_ends m\<close>: running \<open>m\<close> only appends to the trace, and if a call it
  appends has raised, \<open>m\<close> ends with that exception.
\<close>

definition raise_ends :: "('a, ('e, 'c) state) io \<Rightarrow> bool" where
  "raise_ends m =
     (\<forall>s. \<exists>evs. trace (snd (m s)) = trace s @ evs
        \<and> (\<forall>c msg. (c, Some msg) \<in> set evs \<longrightarrow> fst (m s) = Inl (Exception msg)))"

section \<open>An example run of the backup script\<close>

text \<open>
  Two devices; the first refuses the connection, the second answers every call.
\<close>

definition initial_state :: "('e, 'c) state" where
  "initial_state =
     \<lparr>files = Map.empty, dirs = {}, log = [], trace = [],
      n_sessions = 0, n_clock = 0, n_fs = 0\<rparr>"

definition answering :: napalm_session where
  "answering =
     \<lparr>on_open = None,
      on_get_facts = Inr [(''model'', ''C9300'')],
      on_get_config = Inr [(''running'', ''version 15.2''), (''startup'', [])],
      on_get_interfaces = Inr [(''Gi0/1'', ''up'')],
      on_close = None\<rparr>"

definition refusing :: napalm_session where
  "refusing = answering\<lparr>on_open := Some ''connection refused''\<rparr>"

definition example_devices :: "device list" where
  "example_devices =
     [[(''host'', ''r1''), (''username'', ''admin''), (''password'', ''pw1'')],
      [(''host'', ''r2''), (''username'', ''admin''), (''password'', ''pw2'')]]"

definition example_env :: napalm_env where
  "example_env =
     \<lparr>now = (\<lambda>n. ''20240101_120000''),
      fs_fault = (\<lambda>n. None),
      inventory = (\<lambda>p. Document (Some example_devices)),
      get_network_driver = (\<lambda>name. None),
      new_session = (\<lambda>n. Inr (if n = 0 then refusing else answering))\<rparr>"

definition example_results :: "result list" where
  "example_results =
     [Failed (Some ''r1'') ''connection refused'',
      Success (Some ''r2'') ''backups/r2'' ''20240101_120000''
        [(''running_config'', ''backups/r2/r2_running_20240101_120000.cfg''),
         (''facts'', ''backups/r2/r2_facts_20240101_120000.json''),
         (''interfaces'', ''backups/r2/r2_interfaces_20240101_120000.json'')]]"

text \<open>One device and an environment in which every session behaves as given.\<close>

definition r1 :: device where
  "r1 = [(''host'', ''r1''), (''username'', ''admin''), (''password'', ''pw1'')]"

definition env_with :: "napalm_session \<Rightarrow> napalm_env" where
  "env_with session = example_env\<lparr>new_session := (\<lambda>n. Inr session)\<rparr>"

text \<open>A session of a device that has a startup configuration.\<close>

definition with_startup :: napalm_session where
  "with_startup =
     answering\<lparr>on_get_config :=
       Inr [(''running'', ''version 15.2''), (''startup'', ''version 15.1'')]\<rparr>"

section \<open>The backup of one device always returns a result\<close>

lemma no_exit_return: "no_exit (return x)"
  by (simp add: no_exit_def return_def)

lemma no_exit_raise: "no_exit (raise (Exception m))"
  by (simp add: no_exit_def raise_def)

lemma no_exit_bind: "no_exit m \<Longrightarrow> (\<And>x. no_exit (f x)) \<Longrightarrow> no_exit (bind m f)"
  by (auto simp: no_exit_def bind_def split: prod.splits sum.splits)

lemma no_exit_logger_info: "no_exit (logger_info m)"
  by (simp add: no_exit_def logger_info_def)

lemma no_exit_logger_error: "no_exit (logger_error m)"
  by (simp add: no_exit_def logger_error_def)

lemma no_exit_invoke: "no_exit (invoke c r)"
  by (simp add: no_exit_def invoke_def split: sum.splits)

lemma no_exit_dict_item: "no_exit (dict_item d k)"
  by (simp add: dict_item_def no_exit_raise no_exit_return split: option.splits)

lemma no_exit_datetime_now: "no_exit (datetime_now w)"
  by (simp add: no_exit_def datetime_now_def)

lemma no_exit_fs_op: "no_exit (fs_op w f)"
  by (simp add: no_exit_def fs_op_def split: option.splits)

lemma no_exit_join_hostname: "no_exit (join_hostname b h)"
  by (simp add: join_hostname_def no_exit_raise no_exit_return split: option.splits)

lemmas no_exit_intros = no_exit_return no_exit_raise no_exit_bind no_exit_logger_info
  no_exit_logger_error no_exit_invoke no_exit_dict_item no_exit_datetime_now no_exit_fs_op
  no_exit_join_hostname

lemma no_exit_save_startup: "no_exit (save_startup w config d h ts)"
  unfolding save_startup_def Let_def open_w_def write_close_def
  by (intro no_exit_intros conjI impI | simp add: no_exit_intros)+

lemma no_exit_new_driver: "no_exit (new_driver w h u p a)"
  by (simp add: no_exit_def new_driver_def Let_def bind_def invoke_def return_def split: sum.splits)

lemma no_exit_save_artifacts: "no_exit (save_artifacts w h sid conn facts config)"
  unfolding save_artifacts_def Let_def open_w_def write_close_def os_makedirs_def
  by (intro no_exit_intros no_exit_save_startup)

lemma no_exit_backup_session: "no_exit (backup_session w h sid conn)"
  unfolding backup_session_def
  by (intro no_exit_intros no_exit_save_artifacts)

lemma no_exit_backup_body: "no_exit (backup_body w device)"
  unfolding backup_body_def Let_def
  by (intro no_exit_intros no_exit_new_driver | simp add: no_exit_backup_session split: prod.splits)+

lemma backup_device_config_returns:
  "\<exists>r s'. backup_device_config w device s = (Inr r, s')"
  using no_exit_backup_body [of w device]
  by (auto simp: backup_device_config_def try_except_def no_exit_def bind_def logger_error_def
      return_def split: prod.splits sum.splits exn.splits)

lemma post_bind: "(\<And>x. post (f x) P) \<Longrightarrow> post (bind m f) P"
  by (auto simp: post_def bind_def split: prod.splits sum.splits)

lemma post_return: "P x \<Longrightarrow> post (return x) P"
  by (simp add: post_def return_def)

lemma post_save_artifacts:
  "post (save_artifacts w h sid conn facts config) (\<lambda>r. r_hostname r = h)"
  unfolding save_artifacts_def Let_def
  by (intro post_bind post_return) simp

lemma post_backup_session: "post (backup_session w h sid conn) (\<lambda>r. r_hostname r = h)"
  unfolding backup_session_def
  by (intro post_bind post_save_artifacts)

lemma post_backup_body: "post (backup_body w device) (\<lambda>r. r_hostname r = map_of device ''host'')"
  unfolding backup_body_def Let_def
  by (intro post_bind) (simp add: post_backup_session split: prod.splits)

lemma backup_device_config_hostname:
  "backup_device_config w device s = (Inr r, s') \<Longrightarrow> r_hostname r = map_of device ''host''"
  using post_backup_body [of w device]
  by (auto simp: backup_device_config_def try_except_def post_def bind_def logger_error_def
      return_def split: prod.splits sum.splits exn.splits)


lemma length_filter_all: "(length (filter P xs) = length xs) = (\<forall>x \<in> set xs. P x)"
proof (induction xs)
  case Nil
  then show ?case by simp
next
  case (Cons x xs)
  have "length (filter P xs) \<le> length xs" by (rule length_filter_le)
  then have "length (filter P xs) \<noteq> Suc (length xs)" by arith
  with Cons show ?case by auto
qed

lemma summary_eq: "summary results = (if \<forall>r \<in> set results. status r = ''success'' then 0 else 1)"
  using length_filter_all [of "\<lambda>r. status r = ''success''" results]
  by (auto simp: summary_def Let_def)

lemma status_failed_iff: "(status r = ''failed'') = (status r \<noteq> ''success'')"
  by (cases r) simp_all

lemma main_loop_Cons:
  "map_of d ''host'' = Some h \<Longrightarrow>
   main_loop w (d # ds) acc s =
     bind (backup_device_config w d) (\<lambda>r. main_loop w ds (acc @ [r]))
       (s\<lparr>log := log s @ [(''INFO'', [CHR 0x0A] @ replicate 50 (CHR ''='')),
                           (''INFO'', ''Backing up device: '' @ h),
                           (''INFO'', replicate 50 (CHR ''=''))]\<rparr>)"
  by (simp add: bind_def logger_info_def dict_item_def return_def)

lemma main_loop_results:
  "\<forall>d \<in> set devices. map_of d ''host'' \<noteq> None \<Longrightarrow>
   \<exists>new s'. main_loop w devices acc s = (Inr (acc @ new), s')
     \<and> length new = length devices
     \<and> map r_hostname new = map (\<lambda>d. map_of d ''host'') devices"
proof (induction devices arbitrary: acc s)
  case Nil
  then show ?case by (simp add: return_def)
next
  case (Cons d ds)
  from Cons.prems obtain h where h: "map_of d ''host'' = Some h" by auto
  define s1 where "s1 = s\<lparr>log := log s @ [(''INFO'', [CHR 0x0A] @ replicate 50 (CHR ''='')),
                           (''INFO'', ''Backing up device: '' @ h),
                           (''INFO'', replicate 50 (CHR ''=''))]\<rparr>"
  obtain r s2 where r: "backup_device_config w d s1 = (Inr r, s2)"
    using backup_device_config_returns by blast
  have hn: "r_hostname r = map_of d ''host''"
    using backup_device_config_hostname [OF r] .
  from Cons.prems have "\<forall>d \<in> set ds. map_of d ''host'' \<noteq> None" by simp
  from Cons.IH [OF this, of "acc @ [r]" s2]
  obtain new s' where n: "main_loop w ds (acc @ [r]) s2 = (Inr ((acc @ [r]) @ new), s')"
    "length new = length ds" "map r_hostname new = map (\<lambda>d. map_of d ''host'') ds" by blast
  have "main_loop w (d # ds) acc s = main_loop w ds (acc @ [r]) s2"
    unfolding main_loop_Cons [OF h] s1_def [symmetric] by (simp only: bind_def r prod.case sum.case)
  with n hn show ?case
    by (intro exI [of _ "r # new"] exI [of _ s']) simp
qed

section \<open>The calls a backup makes\<close>

lemma calls_only_bind:
  assumes "calls_only P m" and "\<And>x. calls_only P (f x)"
  shows "calls_only P (bind m f)"
  unfolding calls_only_def
proof
  fix s
  from assms(1) obtain evs1 where 1: "trace (snd (m s)) = trace s @ evs1" "\<forall>e \<in> set evs1. P (fst e)"
    unfolding calls_only_def by blast
  show "\<exists>evs. trace (snd (bind m f s)) = trace s @ evs \<and> (\<forall>e \<in> set evs. P (fst e))"
  proof (cases "m s")
    case (Pair r s1)
    show ?thesis
    proof (cases r)
      case (Inl e)
      with Pair 1 show ?thesis by (auto simp: bind_def)
    next
      case (Inr x)
      from assms(2) [of x] obtain evs2 where
        2: "trace (snd (f x s1)) = trace s1 @ evs2" "\<forall>e \<in> set evs2. P (fst e)"
        unfolding calls_only_def by blast
      from Pair Inr 1 2 show ?thesis
        by (intro exI [of _ "evs1 @ evs2"]) (auto simp: bind_def)
    qed
  qed
qed

lemma calls_only_silent:
  "(\<And>s. trace (snd (m s)) = trace s) \<Longrightarrow> calls_only P m"
  by (simp add: calls_only_def)

lemma calls_only_return: "calls_only P (return x)"
  by (simp add: calls_only_silent return_def)

lemma calls_only_raise: "calls_only P (raise x)"
  by (simp add: calls_only_silent raise_def)

lemma calls_only_logger_info: "calls_only P (logger_info x)"
  by (simp add: calls_only_silent logger_info_def)

lemma calls_only_dict_item: "calls_only P (dict_item d k)"
  by (simp add: dict_item_def calls_only_return calls_only_raise split: option.splits)

lemma calls_only_datetime_now: "calls_only P (datetime_now w)"
  by (simp add: calls_only_silent datetime_now_def)

lemma calls_only_fs_op: "(\<And>s. trace (f s) = trace s) \<Longrightarrow> calls_only P (fs_op w f)"
  by (simp add: calls_only_silent fs_op_def split: option.splits)

lemma calls_only_os_makedirs: "calls_only P (os_makedirs w p)"
  by (simp add: os_makedirs_def calls_only_fs_op)

lemma calls_only_open_w: "calls_only P (open_w w b p)"
  by (simp add: open_w_def calls_only_fs_op)

lemma calls_only_write_close: "calls_only P (write_close w p c)"
  by (simp add: write_close_def calls_only_fs_op)

lemma calls_only_join_hostname: "calls_only P (join_hostname b h)"
  by (simp add: join_hostname_def calls_only_return calls_only_raise split: option.splits)

lemma calls_only_invoke: "P c \<Longrightarrow> calls_only P (invoke c r)"
  unfolding calls_only_def
  by (auto simp: invoke_def split: sum.splits)

lemmas calls_only_intros = calls_only_bind calls_only_return calls_only_raise
  calls_only_logger_info calls_only_dict_item calls_only_datetime_now calls_only_os_makedirs
  calls_only_open_w calls_only_write_close calls_only_join_hostname calls_only_invoke

lemma calls_only_save_startup: "calls_only P (save_startup w config d h ts)"
  unfolding save_startup_def Let_def
  by (intro calls_only_intros conjI impI | simp add: calls_only_intros)+

lemma calls_only_save_artifacts:
  "P (GetInterfaces sid) \<Longrightarrow> P (Close sid)
   \<Longrightarrow> calls_only P (save_artifacts w h sid conn facts config)"
  unfolding save_artifacts_def Let_def
  by (intro calls_only_intros calls_only_save_startup)

lemma calls_only_backup_session:
  "P (Open sid) \<Longrightarrow> P (GetFacts sid) \<Longrightarrow> P (GetConfig sid) \<Longrightarrow> P (GetInterfaces sid)
   \<Longrightarrow> P (Close sid) \<Longrightarrow> calls_only P (backup_session w h sid conn)"
  unfolding backup_session_def
  by (intro calls_only_intros calls_only_save_artifacts)

lemma try_except_trace:
  "(\<And>msg s. trace (snd (handler msg s)) = trace s) \<Longrightarrow>
   trace (snd (try_except body handler s)) = trace (snd (body s))"
  by (simp add: try_except_def split: prod.splits sum.splits exn.splits)

lemma backup_device_config_trace:
  "trace (snd (backup_device_config w device s)) = trace (snd (backup_body w device s))"
  unfolding backup_device_config_def
  by (rule try_except_trace) (simp add: bind_def logger_error_def return_def)

lemma backup_body_first_calls:
  assumes "map_of device ''username'' = Some u" and "map_of device ''password'' = Some p"
    and "get_network_driver w (napalm_driver device) = None"
  shows "\<exists>evs. trace (snd (backup_body w device s)) =
           trace s @ [(GetNetworkDriver (napalm_driver device), None),
                      (Driver (n_sessions s) (map_of device ''host'') u p
                         [(''secret'', dict_get device ''secret'' p)],
                       case new_session w (n_sessions s) of Inl e \<Rightarrow> Some e | Inr c \<Rightarrow> None)]
           @ evs"
proof (cases "new_session w (n_sessions s)")
  case (Inl e)
  with assms show ?thesis
    by (simp add: backup_body_def Let_def bind_def logger_info_def invoke_def raises_def
        dict_item_def return_def new_driver_def)
next
  case (Inr conn)
  define s1 where "s1 = s\<lparr>
       log := log s @ [(''INFO'', ''Connecting to '' @ fmt (map_of device ''host'')
                          @ '' using NAPALM driver: '' @ napalm_driver device)],
       n_sessions := Suc (n_sessions s),
       trace := trace s @ [(GetNetworkDriver (napalm_driver device), None),
                      (Driver (n_sessions s) (map_of device ''host'') u p
                         [(''secret'', dict_get device ''secret'' p)], None)]\<rparr>"
  have "calls_only (\<lambda>c. True) (backup_session w (map_of device ''host'') (n_sessions s) conn)"
    by (rule calls_only_backup_session) simp_all
  then obtain evs where evs: "trace (snd (backup_session w (map_of device ''host'') (n_sessions s) conn s1))
      = trace s1 @ evs"
    unfolding calls_only_def by blast
  have "backup_body w device s = backup_session w (map_of device ''host'') (n_sessions s) conn s1"
    using assms Inr
    by (simp add: backup_body_def Let_def bind_def logger_info_def invoke_def raises_def
        dict_item_def return_def new_driver_def s1_def)
  with evs Inr show ?thesis by (simp add: s1_def)
qed

section \<open>A call that raises ends the backup\<close>

lemma raise_ends_bind:
  assumes "raise_ends m" and "\<And>x. raise_ends (f x)"
  shows "raise_ends (bind m f)"
  unfolding raise_ends_def
proof
  fix s
  from assms(1) obtain evs1 where 1: "trace (snd (m s)) = trace s @ evs1"
    "\<forall>c msg. (c, Some msg) \<in> set evs1 \<longrightarrow> fst (m s) = Inl (Exception msg)"
    unfolding raise_ends_def by blast
  show "\<exists>evs. trace (snd (bind m f s)) = trace s @ evs
        \<and> (\<forall>c msg. (c, Some msg) \<in> set evs \<longrightarrow> fst (bind m f s) = Inl (Exception msg))"
  proof (cases "m s")
    case (Pair r s1)
    show ?thesis
    proof (cases r)
      case (Inl e)
      with Pair 1 show ?thesis by (auto simp: bind_def)
    next
      case (Inr x)
      from assms(2) [of x] obtain evs2 where
        2: "trace (snd (f x s1)) = trace s1 @ evs2"
        "\<forall>c msg. (c, Some msg) \<in> set evs2 \<longrightarrow> fst (f x s1) = Inl (Exception msg)"
        unfolding raise_ends_def by blast
      from Pair Inr 1 have none: "\<forall>c msg. (c, Some msg) \<notin> set evs1" by auto
      from Pair Inr 1 2 none show ?thesis
        by (intro exI [of _ "evs1 @ evs2"]) (auto simp: bind_def)
    qed
  qed
qed

lemma raise_ends_silent:
  "(\<And>s. trace (snd (m s)) = trace s) \<Longrightarrow> raise_ends m"
  by (simp add: raise_ends_def)

lemma raise_ends_return: "raise_ends (return x)"
  by (simp add: raise_ends_silent return_def)

lemma raise_ends_raise: "raise_ends (raise x)"
  by (simp add: raise_ends_silent raise_def)

lemma raise_ends_logger_info: "raise_ends (logger_info x)"
  by (simp add: raise_ends_silent logger_info_def)

lemma raise_ends_dict_item: "raise_ends (dict_item d k)"
  by (simp add: dict_item_def raise_ends_return raise_ends_raise split: option.splits)

lemma raise_ends_datetime_now: "raise_ends (datetime_now w)"
  by (simp add: raise_ends_silent datetime_now_def)

lemma raise_ends_fs_op: "(\<And>s. trace (f s) = trace s) \<Longrightarrow> raise_ends (fs_op w f)"
  by (simp add: raise_ends_silent fs_op_def split: option.splits)

lemma raise_ends_os_makedirs: "raise_ends (os_makedirs w p)"
  by (simp add: os_makedirs_def raise_ends_fs_op)

lemma raise_ends_open_w: "raise_ends (open_w w b p)"
  by (simp add: open_w_def raise_ends_fs_op)

lemma raise_ends_write_close: "raise_ends (write_close w p c)"
  by (simp add: write_close_def raise_ends_fs_op)

lemma raise_ends_join_hostname: "raise_ends (join_hostname b h)"
  by (simp add: join_hostname_def raise_ends_return raise_ends_raise split: option.splits)

lemma raise_ends_invoke: "raise_ends (invoke c r)"
  unfolding raise_ends_def
  by (auto simp: invoke_def split: sum.splits)

lemmas raise_ends_intros = raise_ends_bind raise_ends_return raise_ends_raise
  raise_ends_logger_info raise_ends_dict_item raise_ends_datetime_now raise_ends_os_makedirs
  raise_ends_open_w raise_ends_write_close raise_ends_join_hostname raise_ends_invoke

lemma raise_ends_save_startup: "raise_ends (save_startup w config d h ts)"
  unfolding save_startup_def Let_def
  by (intro raise_ends_intros conjI impI | simp add: raise_ends_intros)+

lemma raise_ends_save_artifacts: "raise_ends (save_artifacts w h sid conn facts config)"
  unfolding save_artifacts_def Let_def
  by (intro raise_ends_intros raise_ends_save_startup)

lemma raise_ends_backup_session: "raise_ends (backup_session w h sid conn)"
  unfolding backup_session_def
  by (intro raise_ends_intros raise_ends_save_artifacts)

lemma raise_ends_new_driver: "raise_ends (new_driver w h u p a)"
  unfolding raise_ends_def
  by (auto simp: new_driver_def Let_def bind_def invoke_def return_def split: sum.splits)

lemma raise_ends_backup_body: "raise_ends (backup_body w device)"
  unfolding backup_body_def Let_def
  by (intro raise_ends_intros raise_ends_new_driver
      | simp add: raise_ends_backup_session split: prod.splits)+

section \<open>Which files a failed backup leaves\<close>

text \<open>Either no file was touched, or the calls that can have raised are the last two.\<close>

lemma backup_session_files:
  "files (snd (backup_session w h sid conn s)) = files s
   \<or> (\<forall>c msg. (c, Some msg) \<in> set (drop (length (trace s))
                     (trace (snd (backup_session w h sid conn s))))
          \<longrightarrow> c = GetInterfaces sid \<or> c = Close sid)"
proof (cases "on_open conn")
  case (Some msg)
  then show ?thesis
    by (simp add: backup_session_def bind_def invoke_def raises_def)
next
  case None
  show ?thesis
  proof (cases "on_get_facts conn")
    case (Inl msg)
    with None show ?thesis
      by (simp add: backup_session_def bind_def invoke_def raises_def)
  next
    case (Inr facts)
    show ?thesis
    proof (cases "on_get_config conn")
      case (Inl msg)
      with None Inr show ?thesis
        by (simp add: backup_session_def bind_def invoke_def raises_def logger_info_def)
    next
      case config: (Inr config)
      define s3 where "s3 = s\<lparr>
         log := log s @ [(''INFO'', ''Connected to '' @ dict_get facts ''hostname'' (fmt h)
                         @ '' - Model: '' @ dict_get facts ''model'' ''Unknown'')],
         trace := trace s @ [(Open sid, None), (GetFacts sid, None), (GetConfig sid, None)]\<rparr>"
      have eq: "backup_session w h sid conn s = save_artifacts w h sid conn facts config s3"
        using None Inr config
        by (simp add: backup_session_def bind_def invoke_def raises_def logger_info_def s3_def)
      have "calls_only (\<lambda>c. c = GetInterfaces sid \<or> c = Close sid)
              (save_artifacts w h sid conn facts config)"
        by (rule calls_only_save_artifacts) simp_all
      then obtain evs where evs: "trace (snd (save_artifacts w h sid conn facts config s3))
            = trace s3 @ evs" "\<forall>e \<in> set evs. fst e = GetInterfaces sid \<or> fst e = Close sid"
        unfolding calls_only_def by blast
      have "drop (length (trace s)) (trace (snd (backup_session w h sid conn s)))
           = [(Open sid, None), (GetFacts sid, None), (GetConfig sid, None)] @ evs"
        using evs(1) by (simp add: eq s3_def)
      with evs(2) show ?thesis by auto
    qed
  qed
qed

lemma backup_body_reaches_session:
  assumes "get_network_driver w (napalm_driver device) = None"
    and "map_of device ''username'' = Some u" and "map_of device ''password'' = Some p"
    and "new_session w (n_sessions s) = Inr conn"
  shows "backup_body w device s =
     backup_session w (map_of device ''host'') (n_sessions s) conn
       (s\<lparr>log := log s @ [(''INFO'', ''Connecting to '' @ fmt (map_of device ''host'')
                          @ '' using NAPALM driver: '' @ napalm_driver device)],
          n_sessions := Suc (n_sessions s),
          trace := trace s @ [(GetNetworkDriver (napalm_driver device), None),
                      (Driver (n_sessions s) (map_of device ''host'') u p
                         [(''secret'', dict_get device ''secret'' p)], None)]\<rparr>)"
  using assms
  by (simp add: backup_body_def Let_def bind_def logger_info_def invoke_def raises_def
      dict_item_def return_def new_driver_def)

lemma backup_body_files:
  "files (snd (backup_body w device s)) = files s
   \<or> (\<forall>c msg. (c, Some msg) \<in> set (drop (length (trace s))
                     (trace (snd (backup_body w device s))))
          \<longrightarrow> (\<exists>sid. c = GetInterfaces sid \<or> c = Close sid))"
proof (cases "get_network_driver w (napalm_driver device)")
  case (Some msg)
  then show ?thesis
    by (simp add: backup_body_def Let_def bind_def logger_info_def invoke_def raises_def)
next
  case None
  show ?thesis
  proof (cases "map_of device ''username''")
    case nu: None
    with None show ?thesis
      by (simp add: backup_body_def Let_def bind_def logger_info_def invoke_def raises_def
          dict_item_def raise_def)
  next
    case u: (Some u)
    show ?thesis
    proof (cases "map_of device ''password''")
      case np: None
      with None u show ?thesis
        by (simp add: backup_body_def Let_def bind_def logger_info_def invoke_def raises_def
            dict_item_def raise_def return_def)
    next
      case p: (Some p)
      show ?thesis
      proof (cases "new_session w (n_sessions s)")
        case (Inl msg)
        with None u p show ?thesis
          by (simp add: backup_body_def Let_def bind_def logger_info_def invoke_def raises_def
              dict_item_def raise_def return_def new_driver_def)
      next
        case (Inr conn)
        define s1 where "s1 = s\<lparr>log := log s @ [(''INFO'', ''Connecting to '' @ fmt (map_of device ''host'')
                          @ '' using NAPALM driver: '' @ napalm_driver device)],
          n_sessions := Suc (n_sessions s),
          trace := trace s @ [(GetNetworkDriver (napalm_driver device), None),
                      (Driver (n_sessions s) (map_of device ''host'') u p
                         [(''secret'', dict_get device ''secret'' p)], None)]\<rparr>"
        define s' where "s' = snd (backup_session w (map_of device ''host'') (n_sessions s) conn s1)"
        have eq: "snd (backup_body w device s) = s'"
          unfolding s'_def s1_def backup_body_reaches_session [OF None u p Inr] ..
        have "calls_only (\<lambda>c. True) (backup_session w (map_of device ''host'') (n_sessions s) conn)"
          by (rule calls_only_backup_session) simp_all
        then obtain evs where evs: "trace s' = trace s1 @ evs"
          unfolding calls_only_def s'_def by blast
        have d1: "drop (length (trace s1)) (trace s') = evs"
          using evs by simp
        have d: "drop (length (trace s)) (trace s') =
            [(GetNetworkDriver (napalm_driver device), None),
                      (Driver (n_sessions s) (map_of device ''host'') u p
                         [(''secret'', dict_get device ''secret'' p)], None)] @ evs"
          using evs by (simp add: s1_def)
        from backup_session_files [of w "map_of device ''host''" "n_sessions s" conn s1]
        show ?thesis
          unfolding s'_def [symmetric] eq d d1
          by (auto simp: s1_def)
      qed
    qed
  qed
qed

lemma try_except_files:
  "(\<And>msg s. files (snd (handler msg s)) = files s) \<Longrightarrow>
   files (snd (try_except body handler s)) = files (snd (body s))"
  by (simp add: try_except_def split: prod.splits sum.splits exn.splits)

lemma backup_device_config_files:
  "files (snd (backup_device_config w device s)) = files (snd (backup_body w device s))"
  unfolding backup_device_config_def
  by (rule try_except_files) (simp add: bind_def logger_error_def return_def)

lemma backup_device_config_failed:
  "fst (backup_body w device s) = Inl (Exception msg) \<Longrightarrow>
   fst (backup_device_config w device s) = Inr (Failed (map_of device ''host'') msg)"
  by (cases "backup_body w device s")
    (simp add: backup_device_config_def try_except_def bind_def logger_error_def return_def)

section \<open>What a successful backup has written\<close>

lemma save_startup_success:
  assumes "save_startup w config dir h ts s = (Inr u, s')"
  shows "n_clock s' = n_clock s
     \<and> dom (files s') = dom (files s) \<union>
          (if map_of config ''startup'' \<noteq> None \<and> map_of config ''startup'' \<noteq> Some []
           then {os_path_join dir (fmt h @ ''_startup_'' @ ts @ ''.cfg'')} else {})"
  using assms
  by (auto simp: save_startup_def Let_def bind_def open_w_def write_close_def fs_op_def
      dict_item_def logger_info_def return_def raise_def
      split: if_splits option.splits prod.splits sum.splits)

lemma save_artifacts_success:
  assumes "save_artifacts w h sid conn facts config s = (Inr r, s')"
  shows "\<exists>host. h = Some host
     \<and> r = Success h (os_path_join ''backups'' host) (now w (n_clock s))
           [(''running_config'', os_path_join (os_path_join ''backups'' host)
                (host @ ''_running_'' @ now w (n_clock s) @ ''.cfg'')),
            (''facts'', os_path_join (os_path_join ''backups'' host)
                (host @ ''_facts_'' @ now w (n_clock s) @ ''.json'')),
            (''interfaces'', os_path_join (os_path_join ''backups'' host)
                (host @ ''_interfaces_'' @ now w (n_clock s) @ ''.json''))]
     \<and> n_clock s' = Suc (n_clock s)
     \<and> dom (files s') = dom (files s) \<union>
          {os_path_join (os_path_join ''backups'' host)
                (host @ ''_running_'' @ now w (n_clock s) @ ''.cfg''),
           os_path_join (os_path_join ''backups'' host)
                (host @ ''_facts_'' @ now w (n_clock s) @ ''.json''),
           os_path_join (os_path_join ''backups'' host)
                (host @ ''_interfaces_'' @ now w (n_clock s) @ ''.json'')} \<union>
          (if map_of config ''startup'' \<noteq> None \<and> map_of config ''startup'' \<noteq> Some []
           then {os_path_join (os_path_join ''backups'' host)
                (host @ ''_startup_'' @ now w (n_clock s) @ ''.cfg'')} else {})"
  using assms
  apply (simp add: save_artifacts_def Let_def bind_def datetime_now_def join_hostname_def
      os_makedirs_def open_w_def write_close_def fs_op_def dict_item_def logger_info_def
      invoke_def raises_def return_def raise_def
      split: option.splits prod.splits sum.splits)
  apply (auto dest!: save_startup_success simp: fmt_def)
  done

lemma backup_session_success:
  assumes "backup_session w h sid conn s = (Inr r, s')"
  shows "\<exists>facts config s3. on_get_config conn = Inr config
     \<and> save_artifacts w h sid conn facts config s3 = (Inr r, s')
     \<and> n_clock s3 = n_clock s \<and> files s3 = files s"
  using assms
  apply (clarsimp simp: backup_session_def bind_def invoke_def raises_def logger_info_def
      split: option.splits prod.splits sum.splits)
  apply (intro exI conjI, assumption, simp_all)
  done

lemma backup_body_success:
  assumes "backup_body w device s = (Inr r, s')"
  shows "\<exists>conn s1. new_session w (n_sessions s) = Inr conn
     \<and> backup_session w (map_of device ''host'') (n_sessions s) conn s1 = (Inr r, s')
     \<and> n_clock s1 = n_clock s \<and> files s1 = files s"
  using assms
  apply (clarsimp simp: backup_body_def Let_def bind_def logger_info_def invoke_def raises_def
      dict_item_def return_def raise_def new_driver_def
      split: option.splits prod.splits sum.splits)
  apply (intro exI conjI, assumption, simp_all)
  done

lemma backup_device_config_success:
  assumes "backup_device_config w device s = (Inr (Success h dir ts fs), s')"
  shows "backup_body w device s = (Inr (Success h dir ts fs), s')"
  using assms
  by (auto simp: backup_device_config_def try_except_def bind_def logger_error_def return_def
      split: prod.splits sum.splits exn.splits)

text \<open>Unfolding the model on concrete inputs.\<close>

lemmas io_defs =
  backup_device_config_def backup_body_def backup_session_def save_artifacts_def new_driver_def
  try_except_def bind_def return_def raise_def invoke_def raises_def dict_item_def
  logger_info_def logger_error_def datetime_now_def fs_op_def os_makedirs_def open_w_def
  write_close_def save_startup_def join_hostname_def napalm_driver_def driver_for_def
  driver_map_def dict_get_def fmt_def os_path_join_def startswith_def endswith_def
  run_backups_def load_device_inventory_def Let_def

lemmas example_defs =
  example_env_def example_devices_def example_results_def initial_state_def
  answering_def refusing_def

lemma example_main_loop:
  "fst (main_loop example_env example_devices [] initial_state) = Inr example_results"
  by (simp add: io_defs example_defs)

lemma example_run: "fst (run_backups example_env initial_state) = Inr example_results"
  by (simp add: io_defs example_defs)

section \<open>Claims about the backup script\<close>

text \<open>
  C6. The driver resolver is a static lookup from the device-type tag to the driver
  identifier: each of the seven tags of the table resolves to its listed driver, every
  other tag resolves to the default \<open>ios\<close>, and so does a device record without a
  \<open>device_type\<close> field.
\<close>

theorem driver_resolver:
  "driver_for ''cisco_ios'' = ''ios'' \<and> driver_for ''cisco_xe'' = ''ios''
   \<and> driver_for ''cisco_nxos'' = ''nxos'' \<and> driver_for ''cisco_xr'' = ''iosxr''
   \<and> driver_for ''arista_eos'' = ''eos'' \<and> driver_for ''juniper'' = ''junos''
   \<and> driver_for ''juniper_junos'' = ''junos''
   \<and> (t \<notin> {''cisco_ios'', ''cisco_xe'', ''cisco_nxos'', ''cisco_xr'', ''arista_eos'',
            ''juniper'', ''juniper_junos''} \<longrightarrow> driver_for t = ''ios'')
   \<and> (map_of device ''device_type'' = None \<longrightarrow> napalm_driver device = ''ios'')
   \<and> (map_of device ''device_type'' = Some t \<longrightarrow> napalm_driver device = driver_for t)"
  by (simp add: napalm_driver_def driver_for_def driver_map_def dict_get_def)

theorem driver_resolver_witness:
  "''cisco_asa'' \<notin> {''cisco_ios'', ''cisco_xe'', ''cisco_nxos'', ''cisco_xr'', ''arista_eos'',
            ''juniper'', ''juniper_junos''}
   \<and> driver_for ''cisco_asa'' = ''ios''
   \<and> map_of [(''host'', ''10.0.0.1'')] ''device_type'' = None
   \<and> napalm_driver [(''host'', ''10.0.0.1'')] = ''ios''
   \<and> map_of [(''device_type'', ''cisco_asa'')] ''device_type'' = Some ''cisco_asa''
   \<and> napalm_driver [(''device_type'', ''cisco_asa'')] = ''ios''"
  using driver_resolver [of "''cisco_asa''" "[(''host'', ''10.0.0.1'')]"]
    driver_resolver [of "''cisco_asa''" "[(''device_type'', ''cisco_asa'')]"]
  by simp

text \<open>
  C5. For an inventory of N devices, each with a \<open>host\<close>, the loop of the backup pipeline
  returns exactly N results, the i-th result being that of the i-th device: whatever the
  sessions and the file system do, no device's failure ends the loop.
\<close>

theorem one_result_per_device_in_order:
  assumes "\<forall>d \<in> set devices. map_of d ''host'' \<noteq> None"
  shows "\<exists>results s'. main_loop w devices [] s = (Inr results, s')
           \<and> length results = length devices
           \<and> map r_hostname results = map (\<lambda>d. map_of d ''host'') devices"
  using main_loop_results [OF assms, of w "[]" s] by simp

theorem one_result_per_device_in_order_witness:
  "map (\<lambda>d. map_of d ''host'') example_devices = [Some ''r1'', Some ''r2'']
   \<and> fst (main_loop example_env example_devices [] initial_state) = Inr example_results
   \<and> map status example_results = [''failed'', ''success'']
   \<and> (\<exists>results s'. main_loop example_env example_devices [] initial_state = (Inr results, s')
           \<and> length results = 2
           \<and> map r_hostname results = [Some ''r1'', Some ''r2''])"
proof -
  have h: "\<forall>d \<in> set example_devices. map_of d ''host'' \<noteq> None"
    by (simp add: example_devices_def)
  have len: "length example_devices = 2"
    by (simp add: example_devices_def)
  have hosts: "map (\<lambda>d. map_of d ''host'') example_devices = [Some ''r1'', Some ''r2'']"
    by (simp add: example_devices_def)
  have st: "map status example_results = [''failed'', ''success'']"
    by (simp add: example_results_def)
  from one_result_per_device_in_order [OF h, of example_env initial_state]
  have "\<exists>results s'. main_loop example_env example_devices [] initial_state = (Inr results, s')
           \<and> length results = 2
           \<and> map r_hostname results = [Some ''r1'', Some ''r2'']"
    unfolding len hosts .
  with hosts example_main_loop st show ?thesis
    by (intro conjI)
qed

text \<open>
  C9. When the backup script reaches its summary with the results of the devices, the
  exit status of the process is 0 if every result has status \<open>success\<close>, and it is 1
  exactly when at least one result has status \<open>failed\<close>.
\<close>

theorem exit_status_reflects_failures:
  assumes "fst (run_backups w s) = Inr results"
  shows "script w s = (if \<forall>r \<in> set results. status r = ''success'' then 0 else 1)
         \<and> ((script w s = 1) = (\<exists>r \<in> set results. status r = ''failed''))
         \<and> ((script w s = 0) = (\<forall>r \<in> set results. status r = ''success''))"
proof -
  obtain s' where "run_backups w s = (Inr results, s')"
    using assms by (cases "run_backups w s") simp
  then have "script w s = summary results"
    by (simp add: script_def main_def bind_def return_def exit_status_def)
  then show ?thesis
    by (auto simp: summary_eq status_failed_iff)
qed

theorem exit_status_reflects_failures_witness:
  "fst (run_backups example_env initial_state) = Inr example_results
   \<and> script example_env initial_state = 1
   \<and> map status example_results = [''failed'', ''success'']"
  using exit_status_reflects_failures [OF example_run] example_run
  by (simp add: example_results_def)

text \<open>
  C10. For a device record without a \<open>secret\<close> field (and with the \<open>username\<close> and
  \<open>password\<close> the constructor needs), the driver object is constructed with
  \<open>optional_args = {'secret': password}\<close>: the enable secret is the device's password.
  The first two calls of the backup are the driver lookup and this construction.
\<close>

theorem secret_defaults_to_password:
  assumes "map_of device ''secret'' = None"
    and "map_of device ''username'' = Some u" and "map_of device ''password'' = Some p"
    and "get_network_driver w (napalm_driver device) = None"
  shows "take 2 (drop (length (trace s)) (trace (snd (backup_device_config w device s)))) =
           [(GetNetworkDriver (napalm_driver device), None),
            (Driver (n_sessions s) (map_of device ''host'') u p [(''secret'', p)],
             case new_session w (n_sessions s) of Inl e \<Rightarrow> Some e | Inr c \<Rightarrow> None)]"
  using backup_body_first_calls [OF assms(2,3,4), of s] assms(1)
  by (auto simp: backup_device_config_trace dict_get_def)

theorem secret_defaults_to_password_witness:
  "take 2 (trace (snd (backup_device_config example_env
       [(''host'', ''r1''), (''username'', ''admin''), (''password'', ''pw1'')] initial_state))) =
     [(GetNetworkDriver ''ios'', None),
      (Driver 0 (Some ''r1'') ''admin'' ''pw1'' [(''secret'', ''pw1'')], None)]"
  using secret_defaults_to_password
    [of "[(''host'', ''r1''), (''username'', ''admin''), (''password'', ''pw1'')]"
        "''admin''" "''pw1''" example_env initial_state]
  by (simp add: example_env_def initial_state_def napalm_driver_def driver_for_def
      driver_map_def dict_get_def)

text \<open>
  C2. Every session that \<open>backup_device_config\<close> opens should be closed on every exit
  path. The code closes it on the path that returns \<open>success\<close> only: when \<open>open()\<close>
  has returned and \<open>get_facts()\<close> raises, the function returns \<open>failed\<close> and the trace
  of the session's calls ends with the call that raised, without a \<open>close()\<close>.
\<close>

theorem session_not_closed_after_get_facts_raises:
  "trace (snd (backup_device_config (env_with (answering\<lparr>on_get_facts := Inl ''timeout''\<rparr>))
                 r1 initial_state)) =
     [(GetNetworkDriver ''ios'', None),
      (Driver 0 (Some ''r1'') ''admin'' ''pw1'' [(''secret'', ''pw1'')], None),
      (Open 0, None),
      (GetFacts 0, Some ''timeout'')]
   \<and> fst (backup_device_config (env_with (answering\<lparr>on_get_facts := Inl ''timeout''\<rparr>))
                 r1 initial_state) = Inr (Failed (Some ''r1'') ''timeout'')"
  by (simp add: io_defs example_defs env_with_def r1_def)

text \<open>
  C1, as stated: whenever a call of the session raises between \<open>open\<close> and \<open>close\<close>,
  the result is \<open>failed\<close> and no artifact file of the device exists for the run. This
  fails when \<open>get_interfaces()\<close> raises: the running configuration and the facts have
  been written by then, and nothing removes them.
\<close>

theorem artifacts_remain_after_get_interfaces_raises:
  "(GetInterfaces 0, Some ''timeout'') \<in> set (trace (snd (backup_device_config
        (env_with (answering\<lparr>on_get_interfaces := Inl ''timeout''\<rparr>)) r1 initial_state)))
   \<and> fst (backup_device_config
        (env_with (answering\<lparr>on_get_interfaces := Inl ''timeout''\<rparr>)) r1 initial_state)
       = Inr (Failed (Some ''r1'') ''timeout'')
   \<and> files (snd (backup_device_config
        (env_with (answering\<lparr>on_get_interfaces := Inl ''timeout''\<rparr>)) r1 initial_state))
        ''backups/r1/r1_running_20240101_120000.cfg'' = Some (Text ''version 15.2'')
   \<and> files (snd (backup_device_config
        (env_with (answering\<lparr>on_get_interfaces := Inl ''timeout''\<rparr>)) r1 initial_state))
        ''backups/r1/r1_facts_20240101_120000.json'' = Some (Json [(''model'', ''C9300'')])"
  by (simp add: io_defs example_defs env_with_def r1_def)

text \<open>
  C1, amended: whenever a call to the device library has raised during the backup of a
  device, the result is \<open>failed\<close>, with the text of that exception as its error
  detail; and when the call that raised is \<open>open()\<close>, \<open>get_facts()\<close> or
  \<open>get_config()\<close>, the files are those that existed before the backup.
\<close>

theorem raising_call_gives_failed_result:
  assumes "(c, Some msg) \<in> set (drop (length (trace s))
                                  (trace (snd (backup_device_config w device s))))"
  shows "fst (backup_device_config w device s) = Inr (Failed (map_of device ''host'') msg)
     \<and> ((\<exists>sid. c = Open sid \<or> c = GetFacts sid \<or> c = GetConfig sid)
          \<longrightarrow> files (snd (backup_device_config w device s)) = files s)"
proof -
  from raise_ends_backup_body [of w device]
  obtain evs where evs: "trace (snd (backup_body w device s)) = trace s @ evs"
    "\<forall>c msg. (c, Some msg) \<in> set evs \<longrightarrow> fst (backup_body w device s) = Inl (Exception msg)"
    unfolding raise_ends_def by blast
  from assms have "(c, Some msg) \<in> set evs"
    by (simp add: backup_device_config_trace evs(1))
  with evs(2) have "fst (backup_body w device s) = Inl (Exception msg)" by blast
  then have failed: "fst (backup_device_config w device s) = Inr (Failed (map_of device ''host'') msg)"
    by (rule backup_device_config_failed)
  from assms backup_body_files [of w device s]
  have "(\<exists>sid. c = Open sid \<or> c = GetFacts sid \<or> c = GetConfig sid)
          \<longrightarrow> files (snd (backup_device_config w device s)) = files s"
    by (auto simp: backup_device_config_trace backup_device_config_files)
  with failed show ?thesis by simp
qed

theorem raising_call_gives_failed_result_witness:
  "(GetConfig 0, Some ''timeout'') \<in> set (drop (length (trace (initial_state :: napalm_state)))
       (trace (snd (backup_device_config
          (env_with (answering\<lparr>on_get_config := Inl ''timeout''\<rparr>)) r1 initial_state))))
   \<and> fst (backup_device_config
          (env_with (answering\<lparr>on_get_config := Inl ''timeout''\<rparr>)) r1 initial_state)
       = Inr (Failed (Some ''r1'') ''timeout'')
   \<and> files (snd (backup_device_config
          (env_with (answering\<lparr>on_get_config := Inl ''timeout''\<rparr>)) r1 initial_state))
       = files (initial_state :: napalm_state)"
proof -
  have h: "(GetConfig 0, Some ''timeout'') \<in> set (drop (length (trace (initial_state :: napalm_state)))
       (trace (snd (backup_device_config
          (env_with (answering\<lparr>on_get_config := Inl ''timeout''\<rparr>)) r1 initial_state))))"
    by (simp add: io_defs example_defs env_with_def r1_def)
  have host: "map_of r1 ''host'' = Some ''r1''"
    by (simp add: r1_def)
  from raising_call_gives_failed_result [OF h] h show ?thesis
    unfolding host by blast
qed

text \<open>
  C7. Every successful backup of a device reads the clock once, and the one timestamp read
  names every artifact file of the device in that run: the running configuration, the
  facts, the interfaces, and the startup configuration when the device has one. These are
  the files the backup has written, and the first three are the files of the result.
\<close>

theorem artifacts_share_one_timestamp:
  assumes "backup_device_config w device s = (Inr (Success h dir ts fs), s')"
  shows "\<exists>host conn config.
       map_of device ''host'' = Some host \<and> h = Some host
     \<and> new_session w (n_sessions s) = Inr conn \<and> on_get_config conn = Inr config
     \<and> ts = now w (n_clock s) \<and> n_clock s' = Suc (n_clock s)
     \<and> dir = os_path_join ''backups'' host
     \<and> fs = [(''running_config'', os_path_join dir (host @ ''_running_'' @ ts @ ''.cfg'')),
             (''facts'', os_path_join dir (host @ ''_facts_'' @ ts @ ''.json'')),
             (''interfaces'', os_path_join dir (host @ ''_interfaces_'' @ ts @ ''.json''))]
     \<and> dom (files s') = dom (files s) \<union>
          {os_path_join dir (host @ ''_running_'' @ ts @ ''.cfg''),
           os_path_join dir (host @ ''_facts_'' @ ts @ ''.json''),
           os_path_join dir (host @ ''_interfaces_'' @ ts @ ''.json'')} \<union>
          (if map_of config ''startup'' \<noteq> None \<and> map_of config ''startup'' \<noteq> Some []
           then {os_path_join dir (host @ ''_startup_'' @ ts @ ''.cfg'')} else {})"
proof -
  from backup_device_config_success [OF assms]
  have body: "backup_body w device s = (Inr (Success h dir ts fs), s')" .
  from backup_body_success [OF body] obtain conn s1 where
    conn: "new_session w (n_sessions s) = Inr conn"
    and session: "backup_session w (map_of device ''host'') (n_sessions s) conn s1
                    = (Inr (Success h dir ts fs), s')"
    and s1: "n_clock s1 = n_clock s" "files s1 = files s" by blast
  from backup_session_success [OF session] obtain facts config s3 where
    config: "on_get_config conn = Inr config"
    and save: "save_artifacts w (map_of device ''host'') (n_sessions s) conn facts config s3
                 = (Inr (Success h dir ts fs), s')"
    and s3: "n_clock s3 = n_clock s1" "files s3 = files s1" by blast
  from save_artifacts_success [OF save] obtain host where
    host: "map_of device ''host'' = Some host"
    and r: "Success h dir ts fs =
       Success (map_of device ''host'') (os_path_join ''backups'' host) (now w (n_clock s3))
           [(''running_config'', os_path_join (os_path_join ''backups'' host)
                (host @ ''_running_'' @ now w (n_clock s3) @ ''.cfg'')),
            (''facts'', os_path_join (os_path_join ''backups'' host)
                (host @ ''_facts_'' @ now w (n_clock s3) @ ''.json'')),
            (''interfaces'', os_path_join (os_path_join ''backups'' host)
                (host @ ''_interfaces_'' @ now w (n_clock s3) @ ''.json''))]"
    and clock: "n_clock s' = Suc (n_clock s3)"
    and written: "dom (files s') = dom (files s3) \<union>
          {os_path_join (os_path_join ''backups'' host)
                (host @ ''_running_'' @ now w (n_clock s3) @ ''.cfg''),
           os_path_join (os_path_join ''backups'' host)
                (host @ ''_facts_'' @ now w (n_clock s3) @ ''.json''),
           os_path_join (os_path_join ''backups'' host)
                (host @ ''_interfaces_'' @ now w (n_clock s3) @ ''.json'')} \<union>
          (if map_of config ''startup'' \<noteq> None \<and> map_of config ''startup'' \<noteq> Some []
           then {os_path_join (os_path_join ''backups'' host)
                (host @ ''_startup_'' @ now w (n_clock s3) @ ''.cfg'')} else {})"
    by blast
  from r have eqs: "h = Some host" "dir = os_path_join ''backups'' host" "ts = now w (n_clock s)"
    "fs = [(''running_config'', os_path_join dir (host @ ''_running_'' @ ts @ ''.cfg'')),
             (''facts'', os_path_join dir (host @ ''_facts_'' @ ts @ ''.json'')),
             (''interfaces'', os_path_join dir (host @ ''_interfaces_'' @ ts @ ''.json''))]"
    by (simp_all add: host s3 s1)
  from written have dom: "dom (files s') = dom (files s) \<union>
          {os_path_join dir (host @ ''_running_'' @ ts @ ''.cfg''),
           os_path_join dir (host @ ''_facts_'' @ ts @ ''.json''),
           os_path_join dir (host @ ''_interfaces_'' @ ts @ ''.json'')} \<union>
          (if map_of config ''startup'' \<noteq> None \<and> map_of config ''startup'' \<noteq> Some []
           then {os_path_join dir (host @ ''_startup_'' @ ts @ ''.cfg'')} else {})"
    by (simp only: eqs(2,3) s3 s1)
  from clock have clock': "n_clock s' = Suc (n_clock s)" by (simp add: s3 s1)
  show ?thesis
    using host eqs(1) conn config eqs(3) clock' eqs(2) eqs(4) dom by blast
qed

lemma example_success:
  "fst (backup_device_config (env_with with_startup) r1 initial_state) =
     Inr (Success (Some ''r1'') ''backups/r1'' ''20240101_120000''
           [(''running_config'', ''backups/r1/r1_running_20240101_120000.cfg''),
            (''facts'', ''backups/r1/r1_facts_20240101_120000.json''),
            (''interfaces'', ''backups/r1/r1_interfaces_20240101_120000.json'')])"
  by (simp add: io_defs example_defs env_with_def r1_def with_startup_def)

theorem artifacts_share_one_timestamp_witness:
  "fst (backup_device_config (env_with with_startup) r1 initial_state) =
     Inr (Success (Some ''r1'') ''backups/r1'' ''20240101_120000''
           [(''running_config'', ''backups/r1/r1_running_20240101_120000.cfg''),
            (''facts'', ''backups/r1/r1_facts_20240101_120000.json''),
            (''interfaces'', ''backups/r1/r1_interfaces_20240101_120000.json'')])
   \<and> n_clock (snd (backup_device_config (env_with with_startup) r1 initial_state)) = 1
   \<and> dom (files (snd (backup_device_config (env_with with_startup) r1 initial_state))) =
       {''backups/r1/r1_running_20240101_120000.cfg'',
        ''backups/r1/r1_startup_20240101_120000.cfg'',
        ''backups/r1/r1_facts_20240101_120000.json'',
        ''backups/r1/r1_interfaces_20240101_120000.json''}"
proof -
  have h: "backup_device_config (env_with with_startup) r1 initial_state =
     (Inr (Success (Some ''r1'') ''backups/r1'' ''20240101_120000''
           [(''running_config'', ''backups/r1/r1_running_20240101_120000.cfg''),
            (''facts'', ''backups/r1/r1_facts_20240101_120000.json''),
            (''interfaces'', ''backups/r1/r1_interfaces_20240101_120000.json'')]),
      snd (backup_device_config (env_with with_startup) r1 initial_state))"
    using example_success by (simp add: prod_eq_iff)
  have conn: "new_session (env_with with_startup) (n_sessions (initial_state :: napalm_state))
                = Inr with_startup"
    by (simp add: env_with_def)
  have config: "on_get_config with_startup =
                  Inr [(''running'', ''version 15.2''), (''startup'', ''version 15.1'')]"
    by (simp add: with_startup_def)
  have start: "n_clock (initial_state :: napalm_state) = 0"
    "files (initial_state :: napalm_state) = Map.empty"
    by (simp_all add: initial_state_def)
  from artifacts_share_one_timestamp [OF h] conn config start example_success
  show ?thesis
    by (auto simp: os_path_join_def startswith_def endswith_def)
qed

end
